theory Spec2Isabelle
  imports Main
begin

section \<open>Python strings\<close>

text \<open>
  A Python \<open>str\<close> is a sequence of code points. It is modelled as a \<open>string\<close> whose
  characters are the code points 0 to 255; on that range the character classes below are
  the ones of \<open>str.isspace\<close>, \<open>str.lower\<close>, \<open>str.isprintable\<close> and of the
  \<open>re\<close> module for \<open>str\<close> patterns.
\<close>

definition is_space :: "char \<Rightarrow> bool" where
  "is_space c =
     (let n = (of_char c :: nat)
      in (9 \<le> n \<and> n \<le> 13) \<or> (28 \<le> n \<and> n \<le> 32) \<or> n = 133 \<or> n = 160)"

definition is_digit :: "char \<Rightarrow> bool" where
  "is_digit c = (let n = (of_char c :: nat) in 48 \<le> n \<and> n \<le> 57)"

definition is_word :: "char \<Rightarrow> bool" where
  "is_word c =
     (let n = (of_char c :: nat)
      in (48 \<le> n \<and> n \<le> 57) \<or> (65 \<le> n \<and> n \<le> 90) \<or> n = 95 \<or> (97 \<le> n \<and> n \<le> 122)
         \<or> n = 170 \<or> n = 178 \<or> n = 179 \<or> n = 181 \<or> n = 185 \<or> n = 186
         \<or> (188 \<le> n \<and> n \<le> 190) \<or> (192 \<le> n \<and> n \<noteq> 215 \<and> n \<noteq> 247))"

definition is_printable :: "char \<Rightarrow> bool" where
  "is_printable c =
     (let n = (of_char c :: nat)
      in \<not> (n < 32 \<or> (127 \<le> n \<and> n \<le> 160) \<or> n = 173))"

definition lower_char :: "char \<Rightarrow> char" where
  "lower_char c =
     (let n = (of_char c :: nat)
      in if (65 \<le> n \<and> n \<le> 90) \<or> (192 \<le> n \<and> n \<le> 222 \<and> n \<noteq> 215)
         then char_of (n + 32) else c)"

definition lower :: "string \<Rightarrow> string" where
  "lower s = map lower_char s"

text \<open>\<open>s.strip()\<close> and \<open>s.strip(chars)\<close>.\<close>

definition strip :: "string \<Rightarrow> string" where
  "strip s = rev (dropWhile is_space (rev (dropWhile is_space s)))"

definition strip_chars :: "string \<Rightarrow> string \<Rightarrow> string" where
  "strip_chars cs s =
     rev (dropWhile (\<lambda>c. c \<in> set cs) (rev (dropWhile (\<lambda>c. c \<in> set cs) s)))"

text \<open>\<open>s.startswith(p)\<close> and \<open>p in s\<close>.\<close>

fun startswith :: "string \<Rightarrow> string \<Rightarrow> bool" where
  "startswith s [] = True"
| "startswith [] (c # p) = False"
| "startswith (x # s) (c # p) = (x = c \<and> startswith s p)"

fun contains :: "string \<Rightarrow> string \<Rightarrow> bool" where
  "contains p [] = (p = [])"
| "contains p (x # s) = (startswith (x # s) p \<or> contains p s)"

text \<open>
  \<open>s.split(sep)\<close> for a non-empty separator: the text is cut at the leftmost occurrences
  of \<open>sep\<close>, which do not overlap. Python raises on an empty separator; the source only
  splits on a newline and on two newlines, and \<open>split\<close> with an empty separator returns
  the text uncut.
\<close>

function split_acc :: "string \<Rightarrow> string \<Rightarrow> string \<Rightarrow> string list" where
  "split_acc sep acc [] = [rev acc]"
| "split_acc sep acc (x # s) =
     (if sep \<noteq> [] \<and> startswith (x # s) sep
      then rev acc # split_acc sep [] (drop (length sep) (x # s))
      else split_acc sep (x # acc) s)"
  by pat_completeness auto
termination
  by (relation "measure (\<lambda>(sep, acc, s). length s)") (auto simp: neq_Nil_conv)

definition split :: "string \<Rightarrow> string \<Rightarrow> string list" where
  "split sep s = split_acc sep [] s"

lemma split_acc_nonempty: "split_acc sep acc s \<noteq> []"
  by (induction sep acc s rule: split_acc.induct) auto

lemma split_nonempty: "split sep s \<noteq> []"
  by (simp add: split_def split_acc_nonempty)

text \<open>\<open>sep.join(parts)\<close>.\<close>

fun join :: "string \<Rightarrow> string list \<Rightarrow> string" where
  "join sep [] = []"
| "join sep [x] = x"
| "join sep (x # y # ys) = x @ sep @ join sep (y # ys)"

text \<open>\<open>str(n)\<close> for a non-negative integer.\<close>

definition digit_char :: "nat \<Rightarrow> char" where
  "digit_char d = char_of (48 + d)"

fun str_nat :: "nat \<Rightarrow> string" where
  "str_nat n = (if n < 10 then [digit_char n] else str_nat (n div 10) @ [digit_char (n mod 10)])"

declare str_nat.simps [simp del]

section \<open>Truncation\<close>

text \<open>
  \<open>truncate_text(text, max_length)\<close>. The slice \<open>text[:max_length-3]\<close> with a negative
  bound \<open>-k\<close> drops the last \<open>k\<close> characters, so \<open>max_length\<close> is an \<open>int\<close>.
\<close>

definition slice_to :: "string \<Rightarrow> int \<Rightarrow> string" where
  "slice_to s n = (if 0 \<le> n then take (nat n) s else take (length s - nat (- n)) s)"

definition truncate_text :: "string \<Rightarrow> int \<Rightarrow> string" where
  "truncate_text text max_length =
     (if int (length text) \<le> max_length then text
      else slice_to text (max_length - 3) @ ''...'')"

lemma truncate_text_length:
  "3 \<le> max_length \<Longrightarrow> int (length (truncate_text text max_length)) \<le> max_length"
  by (auto simp: truncate_text_def slice_to_def)

lemma truncate_text_nonempty:
  "text \<noteq> [] \<Longrightarrow> truncate_text text max_length \<noteq> []"
  by (auto simp: truncate_text_def)

section \<open>Regular expressions\<close>

text \<open>
  The patterns of the source are written in the fragment of Python's \<open>re\<close> syntax below.
  Repetition is only ever applied to a single character class in the source
  (\<open>\s*\<close>, \<open>.+\<close>, \<open>.*?\<close>, \<open>\w+\<close>, \<open>[^>]*\<close>), so \<open>Rep\<close> takes a class, a least
  number of repetitions and whether it is greedy. There is at most one capturing group in
  every pattern of the source, so a match carries one optional group.
\<close>

datatype cset = Dot | Space | NonSpace | Word | Digit | OneOf string | NoneOf string

datatype regex =
    Lit char
  | Cls cset
  | Rep cset nat bool
  | Seq regex regex
  | Alt regex regex
  | Eps
  | Grp regex
  | Bol
  | EndZ
  | Eol

record flags =
  ignorecase :: bool
  multiline :: bool
  dotall :: bool

definition no_flags :: flags where
  "no_flags = \<lparr>ignorecase = False, multiline = False, dotall = False\<rparr>"

definition DOTALL :: flags where
  "DOTALL = \<lparr>ignorecase = False, multiline = False, dotall = True\<rparr>"

definition MULTILINE :: flags where
  "MULTILINE = \<lparr>ignorecase = False, multiline = True, dotall = False\<rparr>"

definition IGNORECASE :: flags where
  "IGNORECASE = \<lparr>ignorecase = True, multiline = False, dotall = False\<rparr>"

text \<open>A literal string, an optional part, and a fixed number of repetitions.\<close>

fun Str :: "string \<Rightarrow> regex" where
  "Str [] = Eps"
| "Str [c] = Lit c"
| "Str (c # d # cs) = Seq (Lit c) (Str (d # cs))"

definition Opt :: "regex \<Rightarrow> regex" where
  "Opt r = Alt r Eps"

fun seqs :: "regex list \<Rightarrow> regex" where
  "seqs [] = Eps"
| "seqs [r] = r"
| "seqs (r # q # rs) = Seq r (seqs (q # rs))"

fun in_cset :: "flags \<Rightarrow> cset \<Rightarrow> char \<Rightarrow> bool" where
  "in_cset f Dot c = (dotall f \<or> c \<noteq> CHR 0x0A)"
| "in_cset f Space c = is_space c"
| "in_cset f NonSpace c = (\<not> is_space c)"
| "in_cset f Word c = is_word c"
| "in_cset f Digit c = is_digit c"
| "in_cset f (OneOf cs) c =
     (if ignorecase f then lower_char c \<in> set (lower cs) else c \<in> set cs)"
| "in_cset f (NoneOf cs) c =
     (if ignorecase f then lower_char c \<notin> set (lower cs) else c \<notin> set cs)"

definition lit_eq :: "flags \<Rightarrow> char \<Rightarrow> char \<Rightarrow> bool" where
  "lit_eq f l c = (if ignorecase f then lower_char c = lower_char l else c = l)"

text \<open>
  A matcher state is the character before the position (none at the start of the text),
  the text from the position on, and the group captured so far. \<open>matches\<close> lists the
  states in which a match of the pattern from the given state can end, in the order in
  which the backtracking matcher of \<open>re\<close> tries them: the first alternative before the
  second, more repetitions before fewer when greedy and fewer before more when not.
\<close>

type_synonym mstate = "char option \<times> string \<times> string option"

fun reps :: "(char \<Rightarrow> bool) \<Rightarrow> bool \<Rightarrow> nat \<Rightarrow> mstate \<Rightarrow> mstate list" where
  "reps P greedy k (p, [], g) = (if k = 0 then [(p, [], g)] else [])"
| "reps P greedy k (p, x # s, g) =
     (let here = (if k = 0 then [(p, x # s, g)] else []);
          more = (if P x then reps P greedy (k - 1) (Some x, s, g) else [])
      in if greedy then more @ here else here @ more)"

fun matches :: "flags \<Rightarrow> regex \<Rightarrow> mstate \<Rightarrow> mstate list" where
  "matches f (Lit l) (p, s, g) =
     (case s of [] \<Rightarrow> [] | x # xs \<Rightarrow> if lit_eq f l x then [(Some x, xs, g)] else [])"
| "matches f (Cls cs) (p, s, g) =
     (case s of [] \<Rightarrow> [] | x # xs \<Rightarrow> if in_cset f cs x then [(Some x, xs, g)] else [])"
| "matches f (Rep cs k greedy) st = reps (in_cset f cs) greedy k st"
| "matches f (Seq a b) st = concat (map (matches f b) (matches f a st))"
| "matches f (Alt a b) st = matches f a st @ matches f b st"
| "matches f Eps st = [st]"
| "matches f (Grp r) (p, s, g) =
     map (\<lambda>(p', s', g'). (p', s', Some (take (length s - length s') s))) (matches f r (p, s, g))"
| "matches f Bol (p, s, g) =
     (if p = None \<or> (multiline f \<and> p = Some (CHR 0x0A)) then [(p, s, g)] else [])"
| "matches f EndZ (p, s, g) = (if s = [] then [(p, s, g)] else [])"
| "matches f Eol (p, s, g) =
     (if s = [] \<or> (multiline f \<and> hd s = CHR 0x0A) \<or> s = [CHR 0x0A] then [(p, s, g)] else [])"

text \<open>
  A match object: the text before the match, the matched text, the group, and the state
  after the match.
\<close>

record rmatch =
  pre :: string
  whole :: string
  grp :: "string option"
  post :: mstate

text \<open>\<open>re.match\<close>: a match at the given position only.\<close>

definition match_at :: "flags \<Rightarrow> regex \<Rightarrow> char option \<Rightarrow> string \<Rightarrow> rmatch option" where
  "match_at f r p s =
     (case matches f r (p, s, None) of
        [] \<Rightarrow> None
      | (p', s', g) # _ \<Rightarrow>
          Some \<lparr>pre = [], whole = take (length s - length s') s, grp = g, post = (p', s', None)\<rparr>)"

text \<open>\<open>re.search\<close> from a position: the leftmost position at which the pattern matches.\<close>

fun search_from :: "flags \<Rightarrow> regex \<Rightarrow> char option \<Rightarrow> string \<Rightarrow> rmatch option" where
  "search_from f r p [] = match_at f r p []"
| "search_from f r p (x # s) =
     (case match_at f r p (x # s) of
        Some m \<Rightarrow> Some m
      | None \<Rightarrow>
          (case search_from f r (Some x) s of
             None \<Rightarrow> None
           | Some m \<Rightarrow> Some (m\<lparr>pre := x # pre m\<rparr>)))"

definition re_search :: "flags \<Rightarrow> regex \<Rightarrow> string \<Rightarrow> rmatch option" where
  "re_search f r s = search_from f r None s"

definition re_match :: "flags \<Rightarrow> regex \<Rightarrow> string \<Rightarrow> rmatch option" where
  "re_match f r s = match_at f r None s"

text \<open>
  \<open>m.group(1)\<close>. The group of every pattern of the source takes part in each of its
  matches; a group that took no part reads as the empty text here.
\<close>

definition group1 :: "rmatch \<Rightarrow> string" where
  "group1 m = (case grp m of None \<Rightarrow> [] | Some g \<Rightarrow> g)"

text \<open>A match consumes a prefix of the text: what is left is a suffix of it.\<close>

lemma reps_suffix:
  "(p', s', g') \<in> set (reps P greedy k (p, s, g)) \<Longrightarrow> \<exists>w. s = w @ s'"
proof (induction s arbitrary: p k)
  case Nil
  then show ?case by (auto split: if_splits)
next
  case (Cons x s)
  from Cons.prems consider
    "(p', s', g') = (p, x # s, g)" | "(p', s', g') \<in> set (reps P greedy (k - 1) (Some x, s, g))"
    by (auto simp: Let_def split: if_splits)
  then show ?case
  proof cases
    case 1
    then show ?thesis by simp
  next
    case 2
    from Cons.IH [OF 2] obtain w where "s = w @ s'" ..
    then have "x # s = (x # w) @ s'" by simp
    then show ?thesis ..
  qed
qed

lemma matches_suffix:
  "(p', s', g') \<in> set (matches f r (p, s, g)) \<Longrightarrow> \<exists>w. s = w @ s'"
proof (induction r arbitrary: p s g p' s' g')
  case (Lit l)
  then show ?case by (auto split: list.splits if_splits)
next
  case (Cls cs)
  then show ?case by (auto split: list.splits if_splits)
next
  case (Rep cs k greedy)
  then show ?case by (auto dest: reps_suffix)
next
  case (Seq a b)
  from Seq.prems obtain p1 s1 g1 where
    a: "(p1, s1, g1) \<in> set (matches f a (p, s, g))" and
    b: "(p', s', g') \<in> set (matches f b (p1, s1, g1))"
    by auto
  from Seq.IH(1) [OF a] obtain w1 where "s = w1 @ s1" ..
  moreover from Seq.IH(2) [OF b] obtain w2 where "s1 = w2 @ s'" ..
  ultimately have "s = (w1 @ w2) @ s'" by simp
  then show ?case ..
next
  case (Alt a b)
  then show ?case by auto
next
  case Eps
  then show ?case by simp
next
  case (Grp r)
  from Grp.prems obtain g1 where "(p', s', g1) \<in> set (matches f r (p, s, g))"
    by auto
  then show ?case by (rule Grp.IH)
next
  case Bol
  then show ?case by (auto split: if_splits)
next
  case EndZ
  then show ?case by (auto split: if_splits)
next
  case Eol
  then show ?case by (auto split: if_splits)
qed

lemma match_at_parts:
  assumes "match_at f r p s = Some m"
  shows "pre m = [] \<and> s = whole m @ fst (snd (post m))"
proof -
  from assms obtain p' s' g' rest where
    ms: "matches f r (p, s, None) = (p', s', g') # rest" and
    m: "m = \<lparr>pre = [], whole = take (length s - length s') s, grp = g', post = (p', s', None)\<rparr>"
    by (auto simp: match_at_def split: list.splits)
  from ms have "(p', s', g') \<in> set (matches f r (p, s, None))" by simp
  then obtain w where "s = w @ s'" by (auto dest: matches_suffix)
  with m show ?thesis by simp
qed

lemma search_from_parts:
  "search_from f r p s = Some m \<Longrightarrow> s = pre m @ whole m @ fst (snd (post m))"
proof (induction s arbitrary: p m)
  case Nil
  then show ?case using match_at_parts [of f r p "[]" m] by simp
next
  case (Cons x s)
  show ?case
  proof (cases "match_at f r p (x # s)")
    case (Some m')
    with Cons.prems have "m' = m" by simp
    with Some show ?thesis using match_at_parts [of f r p "x # s" m] by simp
  next
    case None
    with Cons.prems obtain m' where
      s: "search_from f r (Some x) s = Some m'" and m: "m = m'\<lparr>pre := x # pre m'\<rparr>"
      by (auto split: option.splits)
    from Cons.IH [OF s] m show ?thesis by simp
  qed
qed

text \<open>
  \<open>re.findall\<close> and \<open>re.sub\<close> with an empty replacement: the matches from left to
  right, each search starting where the last match ended. No pattern of the source matches
  the empty text; after an empty match the search here moves on by one character.
\<close>

function findall_from :: "flags \<Rightarrow> regex \<Rightarrow> char option \<Rightarrow> string \<Rightarrow> rmatch list" where
  "findall_from f r p s =
     (case search_from f r p s of
        None \<Rightarrow> []
      | Some m \<Rightarrow>
          m # (if whole m \<noteq> [] then findall_from f r (fst (post m)) (fst (snd (post m)))
               else (case fst (snd (post m)) of
                       [] \<Rightarrow> []
                     | x # xs \<Rightarrow> findall_from f r (Some x) xs)))"
  by pat_completeness auto
termination
proof (relation "measure (\<lambda>(f, r, p, s). length s)")
  show "wf (measure (\<lambda>(f, r, p, s). length s))" by simp
next
  fix f r p s m
  assume "search_from f r p s = Some m" and "whole m \<noteq> []"
  then show "((f, r, fst (post m), fst (snd (post m))), (f, r, p, s)) \<in> measure (\<lambda>(f, r, p, s). length s)"
    using search_from_parts [of f r p s m]
    by (metis (no_types, lifting) add_gr_0 case_prod_conv in_measure length_append
        length_greater_0_conv less_add_same_cancel2 trans_less_add2)
next
  fix f r p s m x xs
  assume "search_from f r p s = Some m" and "fst (snd (post m)) = x # xs"
  then show "((f, r, Some x, xs), (f, r, p, s)) \<in> measure (\<lambda>(f, r, p, s). length s)"
    using search_from_parts [of f r p s m] by (cases m) auto
qed

declare findall_from.simps [simp del]

function sub_from :: "flags \<Rightarrow> regex \<Rightarrow> char option \<Rightarrow> string \<Rightarrow> string" where
  "sub_from f r p s =
     (case search_from f r p s of
        None \<Rightarrow> s
      | Some m \<Rightarrow>
          pre m @ (if whole m \<noteq> [] then sub_from f r (fst (post m)) (fst (snd (post m)))
                   else (case fst (snd (post m)) of
                           [] \<Rightarrow> []
                         | x # xs \<Rightarrow> x # sub_from f r (Some x) xs)))"
  by pat_completeness auto
termination
proof (relation "measure (\<lambda>(f, r, p, s). length s)")
  show "wf (measure (\<lambda>(f, r, p, s). length s))" by simp
next
  fix f r p s m
  assume "search_from f r p s = Some m" and "whole m \<noteq> []"
  then show "((f, r, fst (post m), fst (snd (post m))), (f, r, p, s)) \<in> measure (\<lambda>(f, r, p, s). length s)"
    using search_from_parts [of f r p s m]
    by (metis (no_types, lifting) add_gr_0 case_prod_conv in_measure length_append
        length_greater_0_conv less_add_same_cancel2 trans_less_add2)
next
  fix f r p s m x xs
  assume "search_from f r p s = Some m" and "fst (snd (post m)) = x # xs"
  then show "((f, r, Some x, xs), (f, r, p, s)) \<in> measure (\<lambda>(f, r, p, s). length s)"
    using search_from_parts [of f r p s m] by (cases m) auto
qed

declare sub_from.simps [simp del]

definition re_findall :: "flags \<Rightarrow> regex \<Rightarrow> string \<Rightarrow> rmatch list" where
  "re_findall f r s = findall_from f r None s"

definition re_sub_empty :: "flags \<Rightarrow> regex \<Rightarrow> string \<Rightarrow> string" where
  "re_sub_empty f r s = sub_from f r None s"

section \<open>Files, paths and parsed JSON\<close>

text \<open>
  The source reads a \<open>pathlib.Path\<close> through its attributes \<open>name\<close> and \<open>suffix\<close>, opens
  it and asks for its size. Opening, reading and \<open>stat\<close> can raise; their outcome is an
  input of the model, an \<open>error\<close> carrying the text of the exception or the value.
  The value of a read is the decoded text of the file as it is stored.
\<close>

record path =
  name :: string
  suffix :: string

datatype error = Error string

text \<open>
  What \<open>json.loads\<close> returns. A float stands for itself by its \<open>repr\<close>, which is all the
  source reads of it; a \<open>dict\<close> lists its keys, each once, in the order of insertion.
  The parser belongs to the Python library: it is a parameter \<open>loads\<close> of the functions
  below, a partial map from the text to the value, undefined where \<open>json.loads\<close> raises.
\<close>

datatype json =
    JDict "(string \<times> json) list"
  | JList "json list"
  | JStr string
  | JInt int
  | JFloat string
  | JBool bool
  | JNull

abbreviation nl :: char where "nl \<equiv> CHR 0x0A"
abbreviation dq :: char where "dq \<equiv> CHR 0x22"
abbreviation sq :: char where "sq \<equiv> CHR 0x27"
abbreviation cr :: char where "cr \<equiv> CHR 0x0D"

text \<open>
  Both functions open the file with \<open>open(file_path, 'r', ...)\<close>, in text mode and with
  the default \<open>newline=None\<close>: what \<open>f.read\<close> returns has every carriage return followed
  by a line feed, and every other carriage return, turned into one line feed.
\<close>

fun universal_newlines :: "string \<Rightarrow> string" where
  "universal_newlines [] = []"
| "universal_newlines [c] = (if c = cr then [nl] else [c])"
| "universal_newlines (c # d # s) =
     (if c = cr \<and> d = nl then nl # universal_newlines s
      else if c = cr then nl # universal_newlines (d # s)
      else c # universal_newlines (d # s))"

section \<open>The brief of a file\<close>

subsection \<open>Patterns of \<open>get_file_brief\<close>\<close>

definition pat_docstring_dq :: regex where \<comment> \<open>three double quotes, \<open>(.*?)\<close>, three double quotes\<close>
  "pat_docstring_dq = seqs [Str [dq, dq, dq], Grp (Rep Dot 0 False), Str [dq, dq, dq]]"

definition pat_docstring_sq :: regex where \<comment> \<open>three single quotes, \<open>(.*?)\<close>, three single quotes\<close>
  "pat_docstring_sq = seqs [Str [sq, sq, sq], Grp (Rep Dot 0 False), Str [sq, sq, sq]]"

definition pat_comment :: regex where \<comment> \<open>\<open>#\s*(.+)\<close>\<close>
  "pat_comment = seqs [Lit CHR ''#'', Rep Space 0 True, Grp (Rep Dot 1 True)]"

definition pat_class :: regex where \<comment> \<open>\<open>class\s+(\w+)\<close>\<close>
  "pat_class = seqs [Str ''class'', Rep Space 1 True, Grp (Rep Word 1 True)]"

definition pat_def :: regex where \<comment> \<open>\<open>def\s+(\w+)\<close>\<close>
  "pat_def = seqs [Str ''def'', Rep Space 1 True, Grp (Rep Word 1 True)]"

definition pat_title :: regex where \<comment> \<open>\<open><title>(.*?)</title>\<close>\<close>
  "pat_title = seqs [Str ''<title>'', Grp (Rep Dot 0 False), Str ''</title>'']"

definition pat_h1 :: regex where \<comment> \<open>\<open><h1[^>]*>(.*?)</h1>\<close>\<close>
  "pat_h1 = seqs [Str ''<h1'', Rep (NoneOf ''>'') 0 True, Lit CHR ''>'',
                  Grp (Rep Dot 0 False), Str ''</h1>'']"

definition pat_tag :: regex where \<comment> \<open>\<open><[^>]+>\<close>\<close>
  "pat_tag = seqs [Lit CHR ''<'', Rep (NoneOf ''>'') 1 True, Lit CHR ''>'']"

definition pat_css_comment :: regex where \<comment> \<open>\<open>/\*\s*(.+?)\s*\*/\<close>\<close>
  "pat_css_comment = seqs [Str ''/*'', Rep Space 0 True, Grp (Rep Dot 1 False),
                           Rep Space 0 True, Str ''*/'']"

definition pat_selector :: regex where \<comment> \<open>\<open>^([.#]?\w+)\s*{\<close>\<close>
  "pat_selector = seqs [Bol, Grp (Seq (Opt (Cls (OneOf ''.#''))) (Rep Word 1 True)),
                        Rep Space 0 True, Lit CHR ''{'']"

definition pat_rem :: regex where \<comment> \<open>\<open>(?:REM|rem|::)\s+(.+)\<close>\<close>
  "pat_rem = seqs [Alt (Str ''REM'') (Alt (Str ''rem'') (Str ''::'')), Rep Space 1 True,
                   Grp (Rep Dot 1 True)]"

definition pat_echo :: regex where \<comment> \<open>\<open>(?:ECHO|echo)\s+(.+)\<close>\<close>
  "pat_echo = seqs [Alt (Str ''ECHO'') (Str ''echo''), Rep Space 1 True, Grp (Rep Dot 1 True)]"

definition pat_date :: regex where \<comment> \<open>\<open>\d{4}-\d{2}-\d{2}\<close>\<close>
  "pat_date = seqs [Cls Digit, Cls Digit, Cls Digit, Cls Digit, Lit CHR ''-'',
                    Cls Digit, Cls Digit, Lit CHR ''-'', Cls Digit, Cls Digit]"

definition pat_numbered :: regex where \<comment> \<open>\<open>^\d+\.\<close>\<close>
  "pat_numbered = seqs [Bol, Rep Digit 1 True, Lit CHR ''.'']"

subsection \<open>The rules of each file type\<close>

text \<open>
  Each rule returns \<open>Some\<close> brief where the source returns from inside the branch of the
  file type, and \<open>None\<close> where the source leaves the branch and goes on to the default
  rule.
\<close>

definition py_docstring :: "string \<Rightarrow> rmatch option" where
  "py_docstring content =
     (if startswith content [dq, dq, dq] \<or> startswith content [sq, sq, sq]
      then (case re_search DOTALL pat_docstring_dq content of
              Some m \<Rightarrow> Some m
            | None \<Rightarrow> re_search DOTALL pat_docstring_sq content)
      else None)"

definition py_long_comment :: "string \<Rightarrow> string option" where
  "py_long_comment content =
     (case re_search no_flags pat_comment content of
        None \<Rightarrow> None
      | Some first_comment \<Rightarrow>
          if 10 < length (group1 first_comment) then Some (group1 first_comment) else None)"

definition py_structure :: "string \<Rightarrow> string option" where
  "py_structure content =
     (if contains ''__main__'' content then Some ''Main script''
      else if contains ''class '' content then
        (case re_search no_flags pat_class content of
           Some m \<Rightarrow> Some (''Defines '' @ group1 m @ '' class'')
         | None \<Rightarrow> None)
      else if contains ''def '' content then
        (case re_search no_flags pat_def content of
           Some m \<Rightarrow> Some (''Defines '' @ group1 m @ ''()'')
         | None \<Rightarrow> None)
      else None)"

definition brief_py :: "string \<Rightarrow> int \<Rightarrow> string option" where
  "brief_py content max_length =
     (case py_docstring content of
        Some m \<Rightarrow> Some (truncate_text (hd (split [nl] (strip (group1 m)))) max_length)
      | None \<Rightarrow>
          (case py_long_comment content of
             Some text \<Rightarrow> Some (truncate_text text max_length)
           | None \<Rightarrow> py_structure content))"

fun brief_md_lines :: "string list \<Rightarrow> int \<Rightarrow> string option" where
  "brief_md_lines [] max_length = None"
| "brief_md_lines (l # ls) max_length =
     (let line = strip l
      in if line \<noteq> [] \<and> \<not> startswith line ''<!--'' then
           if startswith line ''#'' then
             Some (truncate_text (strip (strip_chars ''#'' line)) max_length)
           else if 20 < length line then Some (truncate_text line max_length)
           else brief_md_lines ls max_length
         else brief_md_lines ls max_length)"

definition brief_md :: "string \<Rightarrow> int \<Rightarrow> string option" where
  "brief_md content max_length = brief_md_lines (split [nl] content) max_length"

definition brief_html :: "string \<Rightarrow> int \<Rightarrow> string option" where
  "brief_html content max_length =
     (case re_search IGNORECASE pat_title content of
        Some m \<Rightarrow> Some (truncate_text (strip (group1 m)) max_length)
      | None \<Rightarrow>
          (case re_search IGNORECASE pat_h1 content of
             Some m \<Rightarrow>
               Some (truncate_text (strip (re_sub_empty no_flags pat_tag (group1 m))) max_length)
           | None \<Rightarrow> Some ''HTML document''))"

definition brief_json :: "(string \<rightharpoonup> json) \<Rightarrow> string \<Rightarrow> string option" where
  "brief_json loads content =
     (case loads content of
        None \<Rightarrow> Some ''JSON data''
      | Some (JDict items) \<Rightarrow> Some (''JSON: '' @ join '', '' (take 3 (map fst items)) @ ''...'')
      | Some (JList xs) \<Rightarrow> Some (''JSON array ['' @ str_nat (length xs) @ '' items]'')
      | Some _ \<Rightarrow> None)"

definition brief_css :: "string \<Rightarrow> int \<Rightarrow> string option" where
  "brief_css content max_length =
     (case (if contains ''/*'' content then re_search no_flags pat_css_comment content else None) of
        Some m \<Rightarrow> Some (truncate_text (group1 m) max_length)
      | None \<Rightarrow>
          (let selectors = map group1 (re_findall MULTILINE pat_selector content)
           in if selectors \<noteq> [] then Some (''Styles: '' @ join '', '' (take 3 selectors))
              else None))"

definition brief_bat :: "string \<Rightarrow> int \<Rightarrow> string option" where
  "brief_bat content max_length =
     (case re_search no_flags pat_rem content of
        Some rem_match \<Rightarrow> Some (truncate_text (group1 rem_match) max_length)
      | None \<Rightarrow>
          (case re_search no_flags pat_echo content of
             Some echo_match \<Rightarrow>
               (let desc = strip (group1 echo_match)
                in if desc \<noteq> [] \<and> \<not> startswith desc ''@''
                   then Some (truncate_text desc max_length)
                   else Some ''Batch script'')
           | None \<Rightarrow> Some ''Batch script''))"

fun brief_sh_lines :: "string list \<Rightarrow> int \<Rightarrow> string option" where
  "brief_sh_lines [] max_length = None"
| "brief_sh_lines (line # ls) max_length =
     (if startswith (strip line) ''#'' \<and> 2 < length (strip line)
      then Some (truncate_text (strip (strip_chars ''#'' line)) max_length)
      else brief_sh_lines ls max_length)"

definition brief_sh :: "string \<Rightarrow> int \<Rightarrow> string option" where
  "brief_sh content max_length =
     (case (if startswith content ''#!'' then brief_sh_lines (tl (split [nl] content)) max_length
            else None) of
        Some b \<Rightarrow> Some b
      | None \<Rightarrow> Some ''Shell script'')"

definition brief_txt :: "string \<Rightarrow> int \<Rightarrow> string option" where
  "brief_txt content max_length =
     (case filter (\<lambda>l. l \<noteq> []) (map strip (split [nl] content)) of
        [] \<Rightarrow> None
      | first_line # _ \<Rightarrow>
          if contains ''readme'' (lower first_line) then Some ''Readme file''
          else if contains ''todo'' (lower first_line) \<or> contains ''- [ ]'' content
            then Some ''TODO list''
          else if contains ''log'' (lower first_line) \<or> re_search no_flags pat_date first_line \<noteq> None
            then Some ''Log file''
          else if re_search no_flags pat_numbered first_line \<noteq> None \<or> startswith first_line ''-''
            then Some ''List or notes''
          else Some (truncate_text first_line max_length))"

text \<open>The default rule: the first meaningful line.\<close>

fun brief_default_lines :: "string list \<Rightarrow> int \<Rightarrow> string" where
  "brief_default_lines [] max_length = ''Text file''"
| "brief_default_lines (l # ls) max_length =
     (let line = strip l
      in if line \<noteq> [] \<and> \<not> startswith line ''#'' \<and> \<not> startswith line ''//''
            \<and> \<not> startswith line ''/*''
         then truncate_text line max_length
         else brief_default_lines ls max_length)"

definition brief_default :: "string \<Rightarrow> int \<Rightarrow> string" where
  "brief_default content max_length = brief_default_lines (split [nl] content) max_length"

definition brief_by_type :: "(string \<rightharpoonup> json) \<Rightarrow> string \<Rightarrow> string \<Rightarrow> int \<Rightarrow> string option" where
  "brief_by_type loads sfx content max_length =
     (if sfx = ''.py'' then brief_py content max_length
      else if sfx = ''.md'' then brief_md content max_length
      else if sfx \<in> set [''.html'', ''.htm''] then brief_html content max_length
      else if sfx \<in> set [''.json''] then brief_json loads content
      else if sfx \<in> set [''.css'', ''.scss'', ''.sass''] then brief_css content max_length
      else if sfx \<in> set [''.bat'', ''.cmd''] then brief_bat content max_length
      else if sfx \<in> set [''.sh'', ''.bash''] then brief_sh content max_length
      else if sfx = ''.txt'' then brief_txt content max_length
      else None)"

subsection \<open>\<open>get_file_brief\<close>\<close>

text \<open>
  The body of the \<open>try\<close>: \<open>file\<close> is the outcome of opening the file and decoding its
  text, of which \<open>f.read(1000)\<close> returns the first 1000 characters, line ends translated.
  \<open>get_file_brief\<close> is the body under its \<open>except Exception\<close>.
\<close>

definition brief_body :: "(string \<rightharpoonup> json) \<Rightarrow> path \<Rightarrow> error + string \<Rightarrow> int \<Rightarrow> error + string" where
  "brief_body loads file_path file max_length =
     (case file of
        Inl e \<Rightarrow> Inl e
      | Inr text \<Rightarrow>
          (let content = strip (take 1000 (universal_newlines text))
           in if content = [] then Inr ''Empty file''
              else (case brief_by_type loads (suffix file_path) content max_length of
                      Some b \<Rightarrow> Inr b
                    | None \<Rightarrow> Inr (brief_default content max_length))))"

definition get_file_brief :: "(string \<rightharpoonup> json) \<Rightarrow> path \<Rightarrow> error + string \<Rightarrow> int \<Rightarrow> string" where
  "get_file_brief loads file_path file max_length =
     (case brief_body loads file_path file max_length of
        Inl e \<Rightarrow> ''Error reading''
      | Inr b \<Rightarrow> b)"

section \<open>The analysis of a file\<close>

subsection \<open>\<open>str\<close> and \<open>repr\<close> of Python values\<close>

definition hex_digit :: "nat \<Rightarrow> char" where
  "hex_digit d = (if d < 10 then char_of (48 + d) else char_of (87 + d))"

definition repr_char :: "char \<Rightarrow> char \<Rightarrow> string" where
  "repr_char quote c =
     (if c = quote \<or> c = CHR 0x5C then [CHR 0x5C, c]
      else if c = CHR 0x09 then [CHR 0x5C, CHR ''t'']
      else if c = nl then [CHR 0x5C, CHR ''n'']
      else if c = CHR 0x0D then [CHR 0x5C, CHR ''r'']
      else if is_printable c then [c]
      else [CHR 0x5C, CHR ''x'', hex_digit (of_char c div 16), hex_digit (of_char c mod 16)])"

definition repr_str :: "string \<Rightarrow> string" where
  "repr_str s =
     (let quote = (if sq \<in> set s \<and> dq \<notin> set s then dq else sq)
      in [quote] @ concat (map (repr_char quote) s) @ [quote])"

definition str_list :: "string list \<Rightarrow> string" where \<comment> \<open>\<open>str\<close> of a list of \<open>str\<close>\<close>
  "str_list xs = ''['' @ join '', '' (map repr_str xs) @ '']''"

definition str_int :: "int \<Rightarrow> string" where
  "str_int i = (if i < 0 then ''-'' @ str_nat (nat (- i)) else str_nat (nat i))"

fun py_repr :: "json \<Rightarrow> string"
  and py_repr_items :: "(string \<times> json) list \<Rightarrow> string list"
  and py_repr_list :: "json list \<Rightarrow> string list" where
  "py_repr (JDict items) = ''{'' @ join '', '' (py_repr_items items) @ ''}''"
| "py_repr (JList xs) = ''['' @ join '', '' (py_repr_list xs) @ '']''"
| "py_repr (JStr s) = repr_str s"
| "py_repr (JInt i) = str_int i"
| "py_repr (JFloat r) = r"
| "py_repr (JBool b) = (if b then ''True'' else ''False'')"
| "py_repr JNull = ''None''"
| "py_repr_items [] = []"
| "py_repr_items ((k, v) # items) = (repr_str k @ '': '' @ py_repr v) # py_repr_items items"
| "py_repr_list [] = []"
| "py_repr_list (x # xs) = py_repr x # py_repr_list xs"

definition py_str :: "json \<Rightarrow> string" where
  "py_str v = (case v of JStr s \<Rightarrow> s | _ \<Rightarrow> py_repr v)"

subsection \<open>Patterns of \<open>analyze_file_content\<close>\<close>

definition pat_import :: regex where \<comment> \<open>\<open>^(?:from|import)\s+(\S+)\<close>\<close>
  "pat_import = seqs [Bol, Alt (Str ''from'') (Str ''import''), Rep Space 1 True,
                      Grp (Rep NonSpace 1 True)]"

definition pat_top_class :: regex where \<comment> \<open>\<open>^class\s+(\w+)\<close>\<close>
  "pat_top_class = seqs [Bol, Str ''class'', Rep Space 1 True, Grp (Rep Word 1 True)]"

definition pat_top_def :: regex where \<comment> \<open>\<open>^def\s+(\w+)\<close>\<close>
  "pat_top_def = seqs [Bol, Str ''def'', Rep Space 1 True, Grp (Rep Word 1 True)]"

definition pat_main_block :: regex where \<comment> \<open>\<open>if __name__.*?:\s*\n(.*?)(?:\n\S|\Z)\<close>\<close>
  "pat_main_block = seqs [Str ''if __name__'', Rep Dot 0 False, Lit CHR '':'', Rep Space 0 True,
                          Lit nl, Grp (Rep Dot 0 False), Alt (Seq (Lit nl) (Cls NonSpace)) EndZ]"

definition pat_md_title :: regex where \<comment> \<open>\<open>^#\s+(.+)$\<close>\<close>
  "pat_md_title = seqs [Bol, Lit CHR ''#'', Rep Space 1 True, Grp (Rep Dot 1 True), Eol]"

definition pat_md_header :: regex where \<comment> \<open>\<open>^#+\s+(.+)$\<close>\<close>
  "pat_md_header = seqs [Bol, Rep (OneOf ''#'') 1 True, Rep Space 1 True, Grp (Rep Dot 1 True), Eol]"

definition pat_todo_open :: regex where \<comment> \<open>\<open>- \[ \]\<close>\<close>
  "pat_todo_open = Str ''- [ ]''"

definition pat_todo_done :: regex where \<comment> \<open>\<open>- \[x\]\<close>\<close>
  "pat_todo_done = Str ''- [x]''"

definition pat_link :: regex where \<comment> \<open>\<open>\[([^\]]+)\]\([^\)]+\)\<close>\<close>
  "pat_link = seqs [Lit CHR ''['', Grp (Rep (NoneOf '']'') 1 True), Str '']('',
                    Rep (NoneOf '')'') 1 True, Lit CHR '')'']"

definition pat_image :: regex where \<comment> \<open>\<open>!\[([^\]]*)\]\([^\)]+\)\<close>\<close>
  "pat_image = seqs [Str ''!['', Grp (Rep (NoneOf '']'') 0 True), Str '']('',
                     Rep (NoneOf '')'') 1 True, Lit CHR '')'']"

definition pat_fence :: regex where \<comment> \<open>three backquotes\<close>
  "pat_fence = Str [CHR 0x60, CHR 0x60, CHR 0x60]"

definition pat_form :: regex where \<comment> \<open>\<open><form\<close>\<close>
  "pat_form = Str ''<form''"

definition pat_script :: regex where \<comment> \<open>\<open><script\<close>\<close>
  "pat_script = Str ''<script''"

definition pat_style :: regex where \<comment> \<open>\<open><style\<close>\<close>
  "pat_style = Str ''<style''"

definition pat_media :: regex where \<comment> \<open>\<open>@media\<close>\<close>
  "pat_media = Str ''@media''"

definition pat_keyframes :: regex where \<comment> \<open>\<open>@keyframes\s+(\w+)\<close>\<close>
  "pat_keyframes = seqs [Str ''@keyframes'', Rep Space 1 True, Grp (Rep Word 1 True)]"

definition pat_export :: regex where
  \<comment> \<open>\<open>export\s+(?:default\s+)?(?:class|function|const|let|var)\s+(\w+)\<close>\<close>
  "pat_export = seqs [Str ''export'', Rep Space 1 True,
                      Opt (Seq (Str ''default'') (Rep Space 1 True)),
                      Alt (Str ''class'') (Alt (Str ''function'') (Alt (Str ''const'')
                        (Alt (Str ''let'') (Str ''var'')))),
                      Rep Space 1 True, Grp (Rep Word 1 True)]"

definition pat_line_date :: regex where \<comment> \<open>\<open>^\d{4}-\d{2}-\d{2}\<close>\<close>
  "pat_line_date = Seq Bol pat_date"

subsection \<open>The summary of each file type\<close>

text \<open>
  \<open>summary_of parts dflt\<close> is \<open>" ".join(summary_parts) if summary_parts else dflt\<close>.
\<close>

definition summary_of :: "string list \<Rightarrow> string \<Rightarrow> string" where
  "summary_of summary_parts dflt = (if summary_parts \<noteq> [] then join '' '' summary_parts else dflt)"

text \<open>Python files.\<close>

definition py_doc_part :: "string \<Rightarrow> string list" where
  "py_doc_part content =
     (if startswith (strip content) [dq, dq, dq] \<or> startswith (strip content) [sq, sq, sq] then
        (case (case re_search DOTALL pat_docstring_dq content of
                 Some m \<Rightarrow> Some m
               | None \<Rightarrow> re_search DOTALL pat_docstring_sq content) of
           Some m \<Rightarrow>
             (let docstring = strip (group1 m)
              in if docstring \<noteq> [] then [hd (split [nl, nl] docstring)] else [])
         | None \<Rightarrow> [])
      else [])"

definition py_import_part :: "string \<Rightarrow> string list" where
  "py_import_part content =
     (let imports = map group1 (re_findall MULTILINE pat_import content);
          text = lower (str_list imports)
      in if imports \<noteq> [] then
           if contains ''flask'' text \<or> contains ''django'' text then [''Web application module'']
           else if contains ''numpy'' text \<or> contains ''pandas'' text then [''Data analysis module'']
           else if contains ''tensorflow'' text \<or> contains ''torch'' text
             then [''Machine learning module'']
           else if contains ''pytest'' text \<or> contains ''unittest'' text then [''Test module'']
           else []
         else [])"

fun key_functions_loop :: "string list \<Rightarrow> string list \<Rightarrow> string list" where
  "key_functions_loop [] key_functions = key_functions"
| "key_functions_loop (func # functions) key_functions =
     key_functions_loop functions
       (if startswith func ''__init__'' then key_functions
        else if startswith func ''test_'' then
          (if contains ''test_'' (join '' '' key_functions) then key_functions
           else key_functions @ [''test functions''])
        else if func \<in> set [''main'', ''run'', ''execute'', ''process''] then key_functions @ [func]
        else if length key_functions < 5 then key_functions @ [func]
        else key_functions)"

definition py_structure_part :: "string \<Rightarrow> string list" where
  "py_structure_part content =
     (let classes = map group1 (re_findall MULTILINE pat_top_class content);
          functions = map group1 (re_findall MULTILINE pat_top_def content);
          key_functions = key_functions_loop functions []
      in (if contains ''__main__'' content then [''Executable script with main entry point''] else [])
         @ (if classes \<noteq> [] then
              [''Defines '' @ str_nat (length classes) @ '' class(es): ''
                 @ join '', '' (take 5 classes)]
            else [])
         @ (if functions \<noteq> [] \<and> key_functions \<noteq> [] then
              [''Key functions: '' @ join '', '' key_functions]
            else []))"

definition py_main_part :: "string \<Rightarrow> string list" where
  "py_main_part content =
     (if contains ''if __name__'' content then
        (case re_search DOTALL pat_main_block content of
           Some main_match \<Rightarrow>
             (let main_content = group1 main_match
              in if contains ''argparse'' main_content \<or> contains ''ArgumentParser'' main_content
                 then [''Command-line interface with argument parsing'']
                 else if contains ''app.run'' main_content then [''Web server startup'']
                 else [])
         | None \<Rightarrow> [])
      else [])"

definition summary_py :: "string \<Rightarrow> string" where
  "summary_py content =
     summary_of (py_doc_part content @ py_import_part content @ py_structure_part content
                 @ py_main_part content) ''Python module''"

text \<open>Markdown files.\<close>

definition md_title_part :: "string \<Rightarrow> string list" where
  "md_title_part content =
     (case re_search MULTILINE pat_md_title content of
        Some title_match \<Rightarrow> [''Documentation: '' @ group1 title_match]
      | None \<Rightarrow> [])"

definition md_kind_part :: "string \<Rightarrow> string list" where
  "md_kind_part content =
     (let headers = re_findall MULTILINE pat_md_header content
      in if contains ''installation'' (lower content) \<and> contains ''usage'' (lower content)
           then [''Project documentation with setup instructions'']
         else if contains ''todo'' (lower content) \<or> contains ''- [ ]'' content then
           (let todos = length (re_findall no_flags pat_todo_open content);
                done = length (re_findall no_flags pat_todo_done content)
            in [''Task list ('' @ str_nat done @ ''/'' @ str_nat (todos + done) @ '' completed)''])
         else if contains ''changelog'' (lower content) \<or> contains ''release'' (lower content)
           then [''Version history/changelog'']
         else if headers \<noteq> [] then [''Contains '' @ str_nat (length headers) @ '' sections'']
         else [])"

definition md_elements_part :: "string \<Rightarrow> string list" where
  "md_elements_part content =
     (let links = re_findall no_flags pat_link content;
          images = re_findall no_flags pat_image content;
          code_blocks = re_findall no_flags pat_fence content;
          elements =
            (if links \<noteq> [] then [str_nat (length links) @ '' links''] else [])
            @ (if images \<noteq> [] then [str_nat (length images) @ '' images''] else [])
            @ (if code_blocks \<noteq> [] then [str_nat (length code_blocks div 2) @ '' code blocks'']
               else [])
      in if elements \<noteq> [] then [''Includes: '' @ join '', '' elements] else [])"

definition summary_md :: "string \<Rightarrow> string" where
  "summary_md content =
     summary_of (md_title_part content @ md_kind_part content @ md_elements_part content)
       ''Markdown document''"

text \<open>HTML files.\<close>

definition summary_html :: "string \<Rightarrow> string" where
  "summary_html content =
     (let scripts = length (re_findall IGNORECASE pat_script content);
          styles = length (re_findall IGNORECASE pat_style content)
      in summary_of
           ((case re_search IGNORECASE pat_title content of
               Some title \<Rightarrow> [''Webpage: '' @ strip (group1 title)]
             | None \<Rightarrow> [])
            @ (if contains ''<form'' (lower content) then
                 [''Interactive page with ''
                    @ str_nat (length (re_findall IGNORECASE pat_form content)) @ '' form(s)'']
               else [])
            @ (if contains ''jquery'' (lower content) \<or> contains ''react'' (lower content)
                  \<or> contains ''vue'' (lower content) then
                 [''Uses: '' @ join '', ''
                    ((if contains ''jquery'' (lower content) then [''jQuery''] else [])
                     @ (if contains ''react'' (lower content) then [''React''] else [])
                     @ (if contains ''vue'' (lower content) then [''Vue''] else []))]
               else [])
            @ (if 0 < scripts \<or> 0 < styles then
                 [''Contains '' @ str_nat scripts @ '' scripts and '' @ str_nat styles
                    @ '' inline styles'']
               else []))
           ''HTML document'')"

text \<open>Stylesheets.\<close>

definition summary_css :: "string \<Rightarrow> string" where
  "summary_css content =
     (let selectors = map group1 (re_findall MULTILINE pat_selector content);
          media_queries = re_findall no_flags pat_media content;
          animations = map group1 (re_findall no_flags pat_keyframes content)
      in summary_of
           ((if contains ''bootstrap'' (lower content) then [''Bootstrap-based styles'']
             else if contains ''tailwind'' (lower content) then [''Tailwind CSS utilities'']
             else [])
            @ (if selectors \<noteq> [] then
                 [''Defines '' @ str_nat (length (remdups selectors)) @ '' unique selectors'']
               else [])
            @ (if media_queries \<noteq> [] then
                 [''Responsive design with '' @ str_nat (length media_queries) @ '' media queries'']
               else [])
            @ (if animations \<noteq> [] then [''Animations: '' @ join '', '' animations] else []))
           ''Stylesheet'')"

text \<open>JavaScript and TypeScript files.\<close>

definition js_framework_part :: "string \<Rightarrow> string list" where
  "js_framework_part content =
     (if contains ''react'' (lower content) then
        (if contains ''component'' (lower content) then [''React component'']
         else [''React application code''])
      else if contains ''angular'' (lower content) then [''Angular module'']
      else if contains ''vue'' (lower content) then [''Vue.js component'']
      else if contains ''express'' (lower content) then [''Express.js server code'']
      else if contains ''jquery'' (lower content) then [''jQuery-based scripts'']
      else [])"

definition js_exports :: "string \<Rightarrow> string list" where
  "js_exports content = map group1 (re_findall no_flags pat_export content)"

definition js_export_part :: "string \<Rightarrow> string list" where
  "js_export_part content =
     (let exports = js_exports content
      in if exports \<noteq> [] then
           (if contains ''default'' content then [''Exports: '' @ hd exports @ '' (default)'']
            else [''Exports: '' @ join '', '' (take 3 exports)])
         else [])"

definition js_pattern_part :: "string \<Rightarrow> string list" where
  "js_pattern_part content =
     (if contains ''addEventListener'' content \<or> contains ''onclick'' content
        then [''Event handling and DOM manipulation'']
      else if contains ''fetch('' content \<or> contains ''axios'' content
        then [''API integration code'']
      else if contains ''test('' content \<or> contains ''describe('' content then [''Test suite'']
      else [])"

definition summary_js :: "string \<Rightarrow> string" where
  "summary_js content =
     summary_of (js_framework_part content @ js_export_part content @ js_pattern_part content)
       ''JavaScript code''"

text \<open>JSON files: the summary stays empty for a value that is neither a \<open>dict\<close> nor a list.\<close>

definition summary_json :: "(string \<rightharpoonup> json) \<Rightarrow> string \<Rightarrow> string" where
  "summary_json loads content =
     (case loads content of
        None \<Rightarrow> ''JSON data file''
      | Some (JDict items) \<Rightarrow>
          (let keys = map fst items
           in if ''name'' \<in> set keys \<and> ''version'' \<in> set keys \<and> ''dependencies'' \<in> set keys then
                ''Package manifest: ''
                  @ (case map_of items ''name'' of Some v \<Rightarrow> py_str v | None \<Rightarrow> ''unknown'')
                  @ '' v''
                  @ (case map_of items ''version'' of Some v \<Rightarrow> py_str v | None \<Rightarrow> ''?'')
              else if ''compilerOptions'' \<in> set keys then ''TypeScript configuration''
              else ''Configuration with keys: '' @ join '', '' (take 5 keys))
      | Some (JList xs) \<Rightarrow> ''Data array with '' @ str_nat (length xs) @ '' items''
      | Some _ \<Rightarrow> [])"

text \<open>Batch files and shell scripts.\<close>

definition summary_bat :: "string \<Rightarrow> string" where
  "summary_bat content =
     (let rem_comments = map group1 (re_findall no_flags pat_rem content)
      in summary_of
           ((if rem_comments \<noteq> [] then [hd rem_comments] else [])
            @ (if contains ''npm'' content then [''Node.js build/run script'']
               else if contains ''python'' content \<or> contains ''py'' content
                 then [''Python execution script'']
               else if contains ''git'' content then [''Git automation script'']
               else if contains ''copy'' content \<or> contains ''xcopy'' content
                 then [''File management script'']
               else []))
           ''Windows batch script'')"

definition summary_sh :: "string \<Rightarrow> string" where
  "summary_sh content =
     summary_of
       ((if startswith content ''#!/'' then
           (let shebang = hd (split [nl] content)
            in if contains ''bash'' shebang then [''Bash script'']
               else if contains ''sh'' shebang then [''Shell script'']
               else [])
         else [])
        @ (if contains ''docker'' content then [''Docker automation'']
           else if contains ''npm'' content \<or> contains ''yarn'' content then [''Node.js build script'']
           else if contains ''pytest'' content \<or> contains ''unittest'' content
             then [''Test runner script'']
           else if contains ''deploy'' (lower content) then [''Deployment script'']
           else []))
       ''Shell script''"

text \<open>Plain text: the one rule that reads the name of the file.\<close>

definition summary_txt :: "string \<Rightarrow> string \<Rightarrow> string list \<Rightarrow> string" where
  "summary_txt file_name content lines =
     (let lines_sample = filter (\<lambda>l. l \<noteq> []) (map strip (take 10 lines))
      in if contains ''readme'' (lower file_name) then ''README text file with project information''
         else if contains ''license'' (lower file_name) then ''License information''
         else if contains ''todo'' (take 100 (lower content)) then ''TODO list or task tracking''
         else if list_all (\<lambda>line. re_match no_flags pat_line_date line \<noteq> None)
                   (filter (\<lambda>line. line \<noteq> []) (take 3 lines_sample))
           then ''Log file with timestamped entries''
         else if 0 < length lines_sample then ''Text document: '' @ take 100 (hd lines_sample)
         else ''Text file'')"

text \<open>The generic summary, for a file whose type set none.\<close>

fun preview_line :: "string list \<Rightarrow> string option" where
  "preview_line [] = None"
| "preview_line (l # ls) =
     (let line = strip l
      in if line \<noteq> [] \<and> \<not> startswith line ''#'' then Some line else preview_line ls)"

definition summary_generic :: "string list \<Rightarrow> string" where
  "summary_generic lines =
     (case preview_line (take 5 lines) of
        Some line \<Rightarrow> take 150 line
      | None \<Rightarrow> ''Text file'')"

definition summary_by_type :: "(string \<rightharpoonup> json) \<Rightarrow> path \<Rightarrow> string \<Rightarrow> string list \<Rightarrow> string" where
  "summary_by_type loads file_path content lines =
     (let sfx = suffix file_path
      in if sfx = ''.py'' then summary_py content
         else if sfx = ''.md'' then summary_md content
         else if sfx \<in> set [''.html'', ''.htm''] then summary_html content
         else if sfx = ''.css'' then summary_css content
         else if sfx \<in> set [''.js'', ''.ts'', ''.jsx'', ''.tsx''] then summary_js content
         else if sfx = ''.json'' then summary_json loads content
         else if sfx \<in> set [''.bat'', ''.cmd''] then summary_bat content
         else if sfx \<in> set [''.sh'', ''.bash''] then summary_sh content
         else if sfx = ''.txt'' then summary_txt (name file_path) content lines
         else [])"

subsection \<open>\<open>analyze_file_content\<close>\<close>

record analysis =
  path_of :: path
  lines :: nat
  non_empty_lines :: nat
  size_of :: nat
  summary :: string

text \<open>
  \<open>file\<close> is the outcome of opening the file and decoding its text, which \<open>f.read()\<close>
  returns whole with the line ends translated, \<open>stat\<close> the outcome of
  \<open>file_path.stat().st_size\<close>. The file is read first; either failure is caught by the
  \<open>except Exception\<close> of the function, which returns the record of the failure.
\<close>

definition analyze_file_content ::
    "(string \<rightharpoonup> json) \<Rightarrow> path \<Rightarrow> error + string \<Rightarrow> error + nat \<Rightarrow> analysis" where
  "analyze_file_content loads file_path file stat =
     (case file of
        Inl (Error e) \<Rightarrow>
          \<lparr>path_of = file_path, lines = 0, non_empty_lines = 0, size_of = 0,
           summary = ''Error analyzing file: '' @ e\<rparr>
      | Inr text \<Rightarrow>
          (case stat of
             Inl (Error e) \<Rightarrow>
               \<lparr>path_of = file_path, lines = 0, non_empty_lines = 0, size_of = 0,
                summary = ''Error analyzing file: '' @ e\<rparr>
           | Inr st_size \<Rightarrow>
               (let content = universal_newlines text;
                    ls = split [nl] content;
                    specific = summary_by_type loads file_path content ls
                in \<lparr>path_of = file_path,
                    lines = length ls,
                    non_empty_lines = length (filter (\<lambda>l. strip l \<noteq> []) ls),
                    size_of = st_size,
                    summary = (if specific = [] then summary_generic ls else specific)\<rparr>)))"

section \<open>Properties\<close>

subsection \<open>Line counting\<close>

lemma split_acc_line:
  "nl \<notin> set l \<Longrightarrow> split_acc [nl] acc l = [rev acc @ l]"
  by (induction l arbitrary: acc) auto

lemma split_acc_line_more:
  "nl \<notin> set l \<Longrightarrow> split_acc [nl] acc (l @ nl # s) = (rev acc @ l) # split_acc [nl] [] s"
  by (induction l arbitrary: acc) auto

lemma split_join_lines:
  "ls \<noteq> [] \<Longrightarrow> \<forall>l \<in> set ls. nl \<notin> set l \<Longrightarrow> split [nl] (join [nl] ls) = ls"
proof (induction "[nl]" ls rule: join.induct)
  case 1
  then show ?case by simp
next
  case (2 x)
  then show ?case by (simp add: split_def split_acc_line)
next
  case (3 x y ys)
  then show ?case by (simp add: split_def split_acc_line_more)
qed

lemma universal_newlines_id: "cr \<notin> set s \<Longrightarrow> universal_newlines s = s"
  by (induction s rule: universal_newlines.induct) auto

lemma set_join: "set (join sep ls) \<subseteq> set sep \<union> \<Union> (set ` set ls)"
  by (induction sep ls rule: join.induct) auto

lemma universal_newlines_join:
  assumes "\<forall>l \<in> set ls. cr \<notin> set l"
  shows "universal_newlines (join [nl] ls) = join [nl] ls"
proof -
  from assms set_join [of "[nl]" ls] have "cr \<notin> set (join [nl] ls)" by auto
  then show ?thesis by (rule universal_newlines_id)
qed

definition cr_line :: string where
  "cr_line = ''a'' @ [cr] @ ''b''"

text \<open>
  C8 says that \<open>k\<close> lines that hold no newline and are not blank, joined by newlines,
  count as \<open>k\<close> lines. A line may hold a carriage return: the file is read in text mode,
  the carriage return comes back as a newline, and the two lines \<open>a<CR>b\<close> and \<open>c\<close>
  count as three.
\<close>

theorem line_count_counterexample:
  "nl \<notin> set cr_line \<and> strip cr_line \<noteq> [] \<and> nl \<notin> set ''c'' \<and> strip ''c'' \<noteq> []
   \<and> length [cr_line, ''c''] = 2
   \<and> lines (analyze_file_content Map.empty \<lparr>name = ''notes.rs'', suffix = ''.rs''\<rparr>
              (Inr (join [nl] [cr_line, ''c''])) (Inr 5)) = 3
   \<and> non_empty_lines (analyze_file_content Map.empty \<lparr>name = ''notes.rs'', suffix = ''.rs''\<rparr>
              (Inr (join [nl] [cr_line, ''c''])) (Inr 5)) = 3"
  by code_simp

text \<open>
  C8, amended: for every \<open>k \<ge> 1\<close> and every content made of \<open>k\<close> lines joined by a
  newline, each line not blank and free of line breaks (no newline and no carriage return,
  which the read turns into a newline), \<open>analyze_file_content\<close> reports \<open>lines = k\<close> and
  \<open>non_empty_lines = k\<close> (the file and its size being readable); the count is that of a
  plain split on the newline, so the empty content has one line.
\<close>

theorem line_counts_of_joined_lines:
  assumes "ls \<noteq> []" and "\<forall>l \<in> set ls. nl \<notin> set l \<and> cr \<notin> set l \<and> strip l \<noteq> []"
  shows "lines (analyze_file_content loads p (Inr (join [nl] ls)) (Inr sz)) = length ls
    \<and> non_empty_lines (analyze_file_content loads p (Inr (join [nl] ls)) (Inr sz)) = length ls
    \<and> lines (analyze_file_content loads p (Inr []) (Inr sz)) = 1"
proof -
  from assms have s: "split [nl] (join [nl] ls) = ls"
    by (simp add: split_join_lines)
  from assms(2) have f: "filter (\<lambda>l. strip l \<noteq> []) ls = ls"
    by (simp add: filter_id_conv)
  from assms(2) have u: "universal_newlines (join [nl] ls) = join [nl] ls"
    by (simp add: universal_newlines_join)
  have e: "split [nl] [] = [[]]"
    by (simp add: split_def)
  show ?thesis
    by (simp add: analyze_file_content_def Let_def u s f e)
qed

theorem line_counts_of_joined_lines_witness:
  "lines (analyze_file_content Map.empty \<lparr>name = ''a.rs'', suffix = ''.rs''\<rparr>
            (Inr (join [nl] [''fn main() {'', ''}''])) (Inr 14)) = 2
   \<and> non_empty_lines (analyze_file_content Map.empty \<lparr>name = ''a.rs'', suffix = ''.rs''\<rparr>
            (Inr (join [nl] [''fn main() {'', ''}''])) (Inr 14)) = 2"
  using line_counts_of_joined_lines [of "[''fn main() {'', ''}'']" Map.empty
      "\<lparr>name = ''a.rs'', suffix = ''.rs''\<rparr>" 14]
  by (simp add: strip_def is_space_def)

subsection \<open>Failures of the analysis\<close>

text \<open>
  C5: when reading the file fails (or asking for its size does), \<open>analyze_file_content\<close>
  returns the record with \<open>lines\<close>, \<open>non_empty_lines\<close> and the size all zero and the
  summary \<open>Error analyzing file:\<close> followed by the cause; the function returns a record on
  every input. A \<open>.json\<close> file whose text \<open>json.loads\<close> rejects gets the fixed, non-empty
  summary \<open>JSON data file\<close> instead.
\<close>

theorem analyze_failure:
  "analyze_file_content loads p (Inl (Error cause)) stat =
     \<lparr>path_of = p, lines = 0, non_empty_lines = 0, size_of = 0,
      summary = ''Error analyzing file: '' @ cause\<rparr>
   \<and> analyze_file_content loads p (Inr content) (Inl (Error cause)) =
     \<lparr>path_of = p, lines = 0, non_empty_lines = 0, size_of = 0,
      summary = ''Error analyzing file: '' @ cause\<rparr>
   \<and> (suffix p = ''.json'' \<and> loads (universal_newlines content) = None \<longrightarrow>
        summary (analyze_file_content loads p (Inr content) (Inr sz)) = ''JSON data file'')"
  by (simp add: analyze_file_content_def summary_by_type_def summary_json_def Let_def)

theorem analyze_failure_witness:
  "summary (analyze_file_content Map.empty \<lparr>name = ''a.json'', suffix = ''.json''\<rparr>
     (Inr ''{'') (Inr 1)) = ''JSON data file''
   \<and> summary (analyze_file_content Map.empty \<lparr>name = ''a.json'', suffix = ''.json''\<rparr>
     (Inl (Error ''[Errno 13] Permission denied'')) (Inr 1))
     = ''Error analyzing file: [Errno 13] Permission denied''"
  using analyze_failure [of Map.empty "\<lparr>name = ''a.json'', suffix = ''.json''\<rparr>"
      "''[Errno 13] Permission denied''" "Inr 1" "''{''" 1]
  by simp

subsection \<open>The brief of a Python script\<close>









subsection \<open>Package manifests and task lists\<close>

definition manifest_text :: string where
  "manifest_text = ''{'' @ [dq] @ ''name'' @ [dq] @ '':'' @ [dq] @ ''x'' @ [dq] @ '',''
     @ [dq] @ ''version'' @ [dq] @ '':'' @ [dq] @ ''1.0'' @ [dq] @ '',''
     @ [dq] @ ''dependencies'' @ [dq] @ '':{}}''"

definition manifest_value :: json where
  "manifest_value = JDict [(''name'', JStr ''x''), (''version'', JStr ''1.0''), (''dependencies'', JDict [])]"

text \<open>
  C6: a \<open>.json\<close> file whose text parses to an object with the keys \<open>name\<close>,
  \<open>version\<close> and \<open>dependencies\<close> gets the summary \<open>Package manifest: <name> v<version>\<close>;
  for the text \<open>{"name":"x","version":"1.0","dependencies":{}}\<close>, which \<open>json.loads\<close>
  parses to the three keys with the values \<open>x\<close>, \<open>1.0\<close> and the empty object, the
  summary is exactly \<open>Package manifest: x v1.0\<close>.
\<close>

theorem package_manifest_summary:
  assumes "suffix p = ''.json''"
    and "loads (universal_newlines content) = Some (JDict items)"
    and "map_of items ''name'' = Some n"
    and "map_of items ''version'' = Some v"
    and "''dependencies'' \<in> set (map fst items)"
  shows "summary (analyze_file_content loads p (Inr content) (Inr sz))
           = ''Package manifest: '' @ py_str n @ '' v'' @ py_str v"
proof -
  from assms(3,4) have "''name'' \<in> set (map fst items)" and "''version'' \<in> set (map fst items)"
    by (auto dest: map_of_SomeD intro: rev_image_eqI)
  with assms show ?thesis
    by (simp add: analyze_file_content_def summary_by_type_def summary_json_def Let_def)
qed

lemma manifest_text_read: "universal_newlines manifest_text = manifest_text"
  by code_simp

theorem package_manifest_summary_witness:
  "summary (analyze_file_content [manifest_text \<mapsto> manifest_value]
              \<lparr>name = ''package.json'', suffix = ''.json''\<rparr> (Inr manifest_text) (Inr 47))
     = ''Package manifest: x v1.0''"
  using package_manifest_summary [of "\<lparr>name = ''package.json'', suffix = ''.json''\<rparr>"
      "[manifest_text \<mapsto> manifest_value]" manifest_text
      "[(''name'', JStr ''x''), (''version'', JStr ''1.0''), (''dependencies'', JDict [])]"
      "JStr ''x''" "JStr ''1.0''" 47]
  by (simp add: manifest_text_read manifest_value_def py_str_def)



subsection \<open>The length of a brief\<close>

definition long_class_example :: string where
  "long_class_example = ''class AbstractSingletonProxyFactoryBeanGenerator:'' @ [nl] @ ''    pass''"

text \<open>
  C1: the brief is at most \<open>max_length\<close> characters long, and a candidate longer than
  that is returned as its first \<open>max_length - 3\<close> characters and three dots. The rules
  that return through \<open>truncate_text\<close> do so (\<open>truncate_text_length\<close>); the rule for a
  class definition returns its text as it is, here 56 characters under the default 50.
\<close>

theorem brief_longer_than_max_length:
  "get_file_brief Map.empty \<lparr>name = ''factory.py'', suffix = ''.py''\<rparr> (Inr long_class_example) 50
     = ''Defines AbstractSingletonProxyFactoryBeanGenerator class''
   \<and> length (get_file_brief Map.empty \<lparr>name = ''factory.py'', suffix = ''.py''\<rparr>
               (Inr long_class_example) 50) = 56
   \<and> truncate_text ''Defines AbstractSingletonProxyFactoryBeanGenerator class'' 50
     = ''Defines AbstractSingletonProxyFactoryBeanGenera...''"
  by code_simp

subsection \<open>What a match consumes and captures\<close>

text \<open>
  \<open>min_len r\<close> is a number of characters that every match of \<open>r\<close> consumes, \<open>keeps r\<close>
  says that \<open>r\<close> has no group, and \<open>captures r\<close> that every match of \<open>r\<close> sets the group
  to a text that is not empty.
\<close>

fun min_len :: "regex \<Rightarrow> nat" where
  "min_len (Lit l) = 1"
| "min_len (Cls cs) = 1"
| "min_len (Rep cs k greedy) = k"
| "min_len (Seq a b) = min_len a + min_len b"
| "min_len (Alt a b) = min (min_len a) (min_len b)"
| "min_len (Grp r) = min_len r"
| "min_len r = 0"

fun keeps :: "regex \<Rightarrow> bool" where
  "keeps (Seq a b) = (keeps a \<and> keeps b)"
| "keeps (Alt a b) = (keeps a \<and> keeps b)"
| "keeps (Grp r) = False"
| "keeps r = True"

fun captures :: "regex \<Rightarrow> bool" where
  "captures (Seq a b) = ((captures a \<and> keeps b) \<or> captures b)"
| "captures (Alt a b) = (captures a \<and> captures b)"
| "captures (Grp r) = (0 < min_len r)"
| "captures r = False"

lemma reps_min:
  "(p', s', g') \<in> set (reps P greedy k (p, s, g)) \<Longrightarrow> length s' + k \<le> length s \<and> g' = g"
proof (induction s arbitrary: p k)
  case Nil
  then show ?case by (auto split: if_splits)
next
  case (Cons x s)
  from Cons.prems consider
    "k = 0" "(p', s', g') = (p, x # s, g)" | "(p', s', g') \<in> set (reps P greedy (k - 1) (Some x, s, g))"
    by (auto simp: Let_def split: if_splits)
  then show ?case
  proof cases
    case 1
    then show ?thesis by simp
  next
    case 2
    from Cons.IH [OF 2] show ?thesis by auto
  qed
qed

lemma matches_min_len:
  "(p', s', g') \<in> set (matches f r (p, s, g)) \<Longrightarrow> length s' + min_len r \<le> length s"
proof (induction r arbitrary: p s g p' s' g')
  case (Rep cs k greedy)
  then show ?case by (auto dest: reps_min)
next
  case (Seq a b)
  from Seq.prems obtain p1 s1 g1 where
    a: "(p1, s1, g1) \<in> set (matches f a (p, s, g))" and
    b: "(p', s', g') \<in> set (matches f b (p1, s1, g1))"
    by auto
  from Seq.IH(1) [OF a] Seq.IH(2) [OF b] show ?case by simp
next
  case (Alt a b)
  from Alt.prems consider
    "(p', s', g') \<in> set (matches f a (p, s, g))" | "(p', s', g') \<in> set (matches f b (p, s, g))"
    by auto
  then show ?case
  proof cases
    case 1
    from Alt.IH(1) [OF 1] show ?thesis by simp
  next
    case 2
    from Alt.IH(2) [OF 2] show ?thesis by simp
  qed
next
  case (Grp r)
  from Grp.prems obtain g1 where "(p', s', g1) \<in> set (matches f r (p, s, g))"
    by auto
  from Grp.IH [OF this] show ?case by simp
qed (auto split: list.splits if_splits)

lemma matches_keeps:
  "keeps r \<Longrightarrow> (p', s', g') \<in> set (matches f r (p, s, g)) \<Longrightarrow> g' = g"
proof (induction r arbitrary: p s g p' s' g')
  case (Rep cs k greedy)
  then show ?case by (auto dest: reps_min)
next
  case (Seq a b)
  from Seq.prems obtain p1 s1 g1 where
    a: "(p1, s1, g1) \<in> set (matches f a (p, s, g))" and
    b: "(p', s', g') \<in> set (matches f b (p1, s1, g1))"
    by auto
  from Seq.prems(1) have "keeps a" and "keeps b" by simp_all
  from Seq.IH(1) [OF \<open>keeps a\<close> a] Seq.IH(2) [OF \<open>keeps b\<close> b] show ?case by simp
next
  case (Alt a b)
  then show ?case by auto
qed (auto split: list.splits if_splits)

lemma matches_captures:
  "captures r \<Longrightarrow> (p', s', g') \<in> set (matches f r (p, s, g)) \<Longrightarrow> \<exists>w. g' = Some w \<and> w \<noteq> []"
proof (induction r arbitrary: p s g p' s' g')
  case (Seq a b)
  from Seq.prems(2) obtain p1 s1 g1 where
    a: "(p1, s1, g1) \<in> set (matches f a (p, s, g))" and
    b: "(p', s', g') \<in> set (matches f b (p1, s1, g1))"
    by auto
  from Seq.prems(1) consider "captures a" "keeps b" | "captures b" by auto
  then show ?case
  proof cases
    case 1
    from matches_keeps [OF 1(2) b] have "g' = g1" .
    with Seq.IH(1) [OF 1(1) a] show ?thesis by simp
  next
    case 2
    from Seq.IH(2) [OF 2 b] show ?thesis .
  qed
next
  case (Alt a b)
  then show ?case by auto
next
  case (Grp r)
  from Grp.prems(2) obtain g1 where
    r: "(p', s', g1) \<in> set (matches f r (p, s, g))" and
    g': "g' = Some (take (length s - length s') s)"
    by auto
  from matches_min_len [OF r] Grp.prems(1) have "length s' < length s" by simp
  with g' show ?case by auto
qed simp_all

lemma match_at_group:
  assumes "captures r" and "match_at f r p s = Some m"
  shows "group1 m \<noteq> []"
proof -
  from assms(2) obtain p' s' g' rest where
    ms: "matches f r (p, s, None) = (p', s', g') # rest" and "grp m = g'"
    by (auto simp: match_at_def split: list.splits)
  from ms have "(p', s', g') \<in> set (matches f r (p, s, None))" by simp
  from matches_captures [OF assms(1) this] \<open>grp m = g'\<close> show ?thesis
    by (auto simp: group1_def)
qed

lemma search_from_group:
  "captures r \<Longrightarrow> search_from f r p s = Some m \<Longrightarrow> group1 m \<noteq> []"
proof (induction s arbitrary: p m)
  case Nil
  then show ?case by (auto dest: match_at_group)
next
  case (Cons x s)
  show ?case
  proof (cases "match_at f r p (x # s)")
    case (Some m')
    with Cons.prems show ?thesis by (auto dest: match_at_group)
  next
    case None
    with Cons.prems(2) obtain m' where
      s: "search_from f r (Some x) s = Some m'" and m: "m = m'\<lparr>pre := x # pre m'\<rparr>"
      by (auto split: option.splits)
    from Cons.IH [OF Cons.prems(1) s] m show ?thesis by (simp add: group1_def)
  qed
qed

lemma re_search_group:
  "captures r \<Longrightarrow> re_search f r s = Some m \<Longrightarrow> group1 m \<noteq> []"
  by (simp add: re_search_def search_from_group)

lemma captures_patterns:
  "captures pat_rem" "captures pat_css_comment" "captures pat_comment"
  by (simp_all add: pat_rem_def pat_css_comment_def pat_comment_def)

text \<open>Every pattern that the source hands to \<open>findall\<close> or \<open>sub\<close> consumes a character.\<close>

lemma patterns_consume:
  "0 < min_len pat_tag" "0 < min_len pat_selector" "0 < min_len pat_import"
  "0 < min_len pat_top_class" "0 < min_len pat_top_def" "0 < min_len pat_md_header"
  "0 < min_len pat_todo_open" "0 < min_len pat_todo_done" "0 < min_len pat_link"
  "0 < min_len pat_image" "0 < min_len pat_fence" "0 < min_len pat_form"
  "0 < min_len pat_script" "0 < min_len pat_style" "0 < min_len pat_media"
  "0 < min_len pat_keyframes" "0 < min_len pat_export" "0 < min_len pat_rem"
  by (simp_all add: pat_tag_def pat_selector_def pat_import_def pat_top_class_def pat_top_def_def
      pat_md_header_def pat_todo_open_def pat_todo_done_def pat_link_def pat_image_def
      pat_fence_def pat_form_def pat_script_def pat_style_def pat_media_def pat_keyframes_def
      pat_export_def pat_rem_def Opt_def)

subsection \<open>Briefs that are never empty, briefs that are short\<close>

lemma truncate_text_50: "length (truncate_text text 50) \<le> 50"
  using truncate_text_length [of 50 "text"] by simp

lemma brief_default_ok:
  "brief_default content 50 \<noteq> [] \<and> length (brief_default content 50) \<le> 50"
proof -
  have "brief_default_lines ls 50 \<noteq> [] \<and> length (brief_default_lines ls 50) \<le> 50" for ls
    by (induction ls) (auto simp: Let_def truncate_text_nonempty truncate_text_50)
  then show ?thesis by (simp add: brief_default_def)
qed

lemma brief_txt_ok:
  "brief_txt content 50 = Some b \<Longrightarrow> b \<noteq> [] \<and> length b \<le> 50"
proof -
  assume b: "brief_txt content 50 = Some b"
  let ?ls = "filter (\<lambda>l. l \<noteq> []) (map strip (split [nl] content))"
  from b obtain first_line rest where ls: "?ls = first_line # rest"
    by (cases ?ls) (auto simp: brief_txt_def)
  then have "first_line \<in> set ?ls" by simp
  then have "first_line \<noteq> []" by simp
  with b ls show ?thesis
    by (auto simp: brief_txt_def truncate_text_nonempty truncate_text_50 split: if_splits)
qed

lemma brief_bat_ok:
  "brief_bat content 50 = Some b \<Longrightarrow> b \<noteq> [] \<and> length b \<le> 50"
  by (auto simp: brief_bat_def Let_def truncate_text_nonempty truncate_text_50
      split: option.splits if_splits
      dest!: re_search_group [OF captures_patterns(1)])

lemma brief_json_nonempty: "brief_json loads content = Some b \<Longrightarrow> b \<noteq> []"
  by (auto simp: brief_json_def split: option.splits json.splits)

lemma brief_css_nonempty: "brief_css content 50 = Some b \<Longrightarrow> b \<noteq> []"
  by (auto simp: brief_css_def Let_def truncate_text_nonempty
      split: option.splits if_splits
      dest!: re_search_group [OF captures_patterns(2)])

lemma brief_md_short: "brief_md content 50 = Some b \<Longrightarrow> length b \<le> 50"
proof -
  have "brief_md_lines ls 50 = Some b \<Longrightarrow> length b \<le> 50" for ls
    by (induction ls) (auto simp: Let_def truncate_text_50 split: if_splits)
  then show "brief_md content 50 = Some b \<Longrightarrow> length b \<le> 50"
    by (simp add: brief_md_def)
qed

lemma brief_html_short: "brief_html content 50 = Some b \<Longrightarrow> length b \<le> 50"
  by (auto simp: brief_html_def truncate_text_50 split: option.splits)

lemma brief_sh_short: "brief_sh content 50 = Some b \<Longrightarrow> length b \<le> 50"
proof -
  have "brief_sh_lines ls 50 = Some b \<Longrightarrow> length b \<le> 50" for ls
    by (induction ls) (auto simp: truncate_text_50 split: if_splits)
  then show "brief_sh content 50 = Some b \<Longrightarrow> length b \<le> 50"
    by (auto simp: brief_sh_def split: option.splits if_splits)
qed

lemma brief_by_type_nonempty:
  assumes "sfx \<notin> set [''.py'', ''.md'', ''.html'', ''.htm'', ''.sh'', ''.bash'']"
    and "brief_by_type loads sfx content 50 = Some b"
  shows "b \<noteq> []"
proof -
  from assms(1) have n: "sfx \<noteq> ''.py''" "sfx \<noteq> ''.md''" "sfx \<noteq> ''.html''" "sfx \<noteq> ''.htm''"
    "sfx \<noteq> ''.sh''" "sfx \<noteq> ''.bash''"
    by simp_all
  consider (json) "brief_json loads content = Some b" | (css) "brief_css content 50 = Some b"
    | (bat) "brief_bat content 50 = Some b" | (plain) "brief_txt content 50 = Some b"
  proof -
    have "brief_by_type loads sfx content 50 =
        (if sfx = ''.json'' then brief_json loads content
         else if sfx = ''.css'' \<or> sfx = ''.scss'' \<or> sfx = ''.sass'' then brief_css content 50
         else if sfx = ''.bat'' \<or> sfx = ''.cmd'' then brief_bat content 50
         else if sfx = ''.txt'' then brief_txt content 50
         else None)"
      unfolding brief_by_type_def using n by simp
    with assms(2) that show ?thesis
      by (simp split: if_splits)
  qed
  then show ?thesis
  proof cases
    case json
    then show ?thesis by (rule brief_json_nonempty)
  next
    case css
    then show ?thesis by (rule brief_css_nonempty)
  next
    case bat
    then show ?thesis using brief_bat_ok by blast
  next
    case plain
    then show ?thesis using brief_txt_ok by blast
  qed
qed

lemma brief_by_type_short:
  assumes "sfx \<notin> set [''.py'', ''.json'', ''.css'', ''.scss'', ''.sass'']"
    and "brief_by_type loads sfx content 50 = Some b"
  shows "length b \<le> 50"
proof -
  from assms(1) have n: "sfx \<noteq> ''.py''" "sfx \<noteq> ''.json''" "sfx \<noteq> ''.css''" "sfx \<noteq> ''.scss''"
    "sfx \<noteq> ''.sass''"
    by simp_all
  consider (md) "brief_md content 50 = Some b" | (html) "brief_html content 50 = Some b"
    | (bat) "brief_bat content 50 = Some b" | (sh) "brief_sh content 50 = Some b"
    | (plain) "brief_txt content 50 = Some b"
  proof -
    have "brief_by_type loads sfx content 50 =
        (if sfx = ''.md'' then brief_md content 50
         else if sfx = ''.html'' \<or> sfx = ''.htm'' then brief_html content 50
         else if sfx = ''.bat'' \<or> sfx = ''.cmd'' then brief_bat content 50
         else if sfx = ''.sh'' \<or> sfx = ''.bash'' then brief_sh content 50
         else if sfx = ''.txt'' then brief_txt content 50
         else None)"
      unfolding brief_by_type_def using n by simp
    with assms(2) that show ?thesis
      by (simp split: if_splits)
  qed
  then show ?thesis
  proof cases
    case md
    then show ?thesis by (rule brief_md_short)
  next
    case html
    then show ?thesis by (rule brief_html_short)
  next
    case bat
    then show ?thesis using brief_bat_ok by blast
  next
    case sh
    then show ?thesis by (rule brief_sh_short)
  next
    case plain
    then show ?thesis using brief_txt_ok by blast
  qed
qed

text \<open>
  Where the rules guard and truncate: under the default \<open>max_length\<close> of 50, the brief is
  not empty when the suffix is none of \<open>.py\<close>, \<open>.md\<close>, \<open>.html\<close>, \<open>.htm\<close>,
  \<open>.sh\<close> and \<open>.bash\<close>, and at most 50 characters long when it is none of \<open>.py\<close>,
  \<open>.json\<close>, \<open>.css\<close>, \<open>.scss\<close> and \<open>.sass\<close>.
\<close>

lemma brief_nonempty_and_short:
  "(suffix p \<notin> set [''.py'', ''.md'', ''.html'', ''.htm'', ''.sh'', ''.bash'']
      \<longrightarrow> get_file_brief loads p file 50 \<noteq> [])
   \<and> (suffix p \<notin> set [''.py'', ''.json'', ''.css'', ''.scss'', ''.sass'']
      \<longrightarrow> length (get_file_brief loads p file 50) \<le> 50)"
proof (cases "file")
  case (Inl e)
  then show ?thesis by (simp add: get_file_brief_def brief_body_def)
next
  case (Inr raw)
  let ?content = "strip (take 1000 (universal_newlines raw))"
  show ?thesis
  proof (cases "?content = []")
    case True
    with Inr show ?thesis by (simp add: get_file_brief_def brief_body_def)
  next
    case False
    show ?thesis
    proof (cases "brief_by_type loads (suffix p) ?content 50")
      case None
      with Inr False brief_default_ok [of ?content] show ?thesis
        by (simp add: get_file_brief_def brief_body_def)
    next
      case (Some b)
      with Inr False have "get_file_brief loads p file 50 = b"
        by (simp add: get_file_brief_def brief_body_def)
      with Some show ?thesis
        using brief_by_type_nonempty [of "suffix p" loads ?content b]
          brief_by_type_short [of "suffix p" loads ?content b]
        by blast
    qed
  qed
qed

definition empty_title_example :: string where
  "empty_title_example = ''<html><head><title></title></head></html>''"

definition bare_marks_example :: string where
  "bare_marks_example = ''#!/bin/sh'' @ [nl] @ ''###'' @ [nl] @ ''make''"

text \<open>
  C3: for every path and every content prefix the brief is not empty (and at most 50
  characters long under the default \<open>max_length\<close>). The source guards the empty text
  where it reads the stripped content, the text after \<open>echo\<close> and the lines of the
  default rule; the returns of a heading, a title and a shell comment have no such guard.
  A Markdown file that holds a lone \<open>#\<close> gets the empty brief, and so do a page with
  an empty title and a script whose first comment is made of marks only.
\<close>

theorem brief_empty_for_lone_heading:
  "get_file_brief Map.empty \<lparr>name = ''README.md'', suffix = ''.md''\<rparr> (Inr ''#'') 50 = []
   \<and> get_file_brief Map.empty \<lparr>name = ''index.html'', suffix = ''.html''\<rparr>
         (Inr empty_title_example) 50 = []
   \<and> get_file_brief Map.empty \<lparr>name = ''build.sh'', suffix = ''.sh''\<rparr>
         (Inr bare_marks_example) 50 = []"
  by code_simp

subsection \<open>Failures of the brief\<close>

text \<open>
  C4 says that every read or parse failure gives \<open>Error reading\<close>. A \<open>.json\<close> file
  whose text \<open>json.loads\<close> rejects (here a lone brace) is caught by the handler of the
  JSON rule, which returns \<open>JSON data\<close>.
\<close>

theorem brief_json_failure_counterexample:
  "get_file_brief Map.empty \<lparr>name = ''data.json'', suffix = ''.json''\<rparr> (Inr ''{'') 50 = ''JSON data''
   \<and> get_file_brief Map.empty \<lparr>name = ''data.json'', suffix = ''.json''\<rparr> (Inr ''{'') 50
       \<noteq> ''Error reading''"
  by code_simp

text \<open>
  C4, amended: \<open>get_file_brief\<close> never passes an exception on. A failure to read the
  file gives \<open>Error reading\<close>; nothing else in the body raises, so the body returns a
  brief for every text read; and a \<open>.json\<close> file whose text does not parse gives
  \<open>JSON data\<close>.
\<close>

theorem brief_failures:
  "get_file_brief loads p (Inl e) max_length = ''Error reading''
   \<and> (\<exists>b. brief_body loads p (Inr text) max_length = Inr b)
   \<and> (suffix p = ''.json'' \<and> strip (take 1000 (universal_newlines text)) \<noteq> []
        \<and> loads (strip (take 1000 (universal_newlines text))) = None
      \<longrightarrow> get_file_brief loads p (Inr text) max_length = ''JSON data'')"
  by (simp add: get_file_brief_def brief_body_def brief_by_type_def brief_json_def Let_def
      split: option.splits)

theorem brief_failures_witness:
  "get_file_brief Map.empty \<lparr>name = ''data.json'', suffix = ''.json''\<rparr>
       (Inl (Error ''[Errno 2] No such file or directory'')) 50 = ''Error reading''
   \<and> get_file_brief Map.empty \<lparr>name = ''data.json'', suffix = ''.json''\<rparr> (Inr ''{'') 50
     = ''JSON data''"
  using brief_failures [of Map.empty "\<lparr>name = ''data.json'', suffix = ''.json''\<rparr>"
      "Error ''[Errno 2] No such file or directory''" 50 "''{''"]
  by (simp add: strip_def is_space_def)

subsection \<open>What the analysis depends on\<close>

text \<open>The suffixes that \<open>analyze_file_content\<close> has a rule for.\<close>

definition analyzed_suffixes :: "string list" where
  "analyzed_suffixes = [''.py'', ''.md'', ''.html'', ''.htm'', ''.css'', ''.js'', ''.ts'', ''.jsx'',
     ''.tsx'', ''.json'', ''.bat'', ''.cmd'', ''.sh'', ''.bash'', ''.txt'']"

lemma analyzed_suffixes_lower: "x \<in> set analyzed_suffixes \<Longrightarrow> lower x = x"
proof -
  have "list_all (\<lambda>x. lower x = x) analyzed_suffixes" by code_simp
  then show "x \<in> set analyzed_suffixes \<Longrightarrow> lower x = x"
    by (simp add: list_all_iff)
qed

lemma summary_by_type_unhandled:
  assumes "suffix p \<notin> set analyzed_suffixes"
  shows "summary_by_type loads p content ls = []"
proof -
  from assms have "suffix p \<noteq> ''.py''" "suffix p \<noteq> ''.md''" "suffix p \<noteq> ''.html''"
    "suffix p \<noteq> ''.htm''" "suffix p \<noteq> ''.css''" "suffix p \<noteq> ''.js''" "suffix p \<noteq> ''.ts''"
    "suffix p \<noteq> ''.jsx''" "suffix p \<noteq> ''.tsx''" "suffix p \<noteq> ''.json''" "suffix p \<noteq> ''.bat''"
    "suffix p \<noteq> ''.cmd''" "suffix p \<noteq> ''.sh''" "suffix p \<noteq> ''.bash''" "suffix p \<noteq> ''.txt''"
    by (simp_all add: analyzed_suffixes_def)
  then show ?thesis
    by (simp add: summary_by_type_def)
qed

text \<open>
  C2 says that the analysis depends on the lower-cased extension and the content only.
  The rule for \<open>.txt\<close> reads the name of the file: the same content is a README under
  one name and a text document under another.
\<close>

theorem analysis_reads_name_counterexample:
  "lower ''.txt'' = ''.txt''
   \<and> summary (analyze_file_content Map.empty \<lparr>name = ''readme.txt'', suffix = ''.txt''\<rparr>
     (Inr ''hello'') (Inr 5)) = ''README text file with project information''
   \<and> summary (analyze_file_content Map.empty \<lparr>name = ''notes.txt'', suffix = ''.txt''\<rparr>
     (Inr ''hello'') (Inr 5)) = ''Text document: hello''"
  by code_simp

text \<open>
  C2, amended: two paths with the same lower-cased extension and the same content get the
  same \<open>summary\<close>, \<open>lines\<close> and \<open>non_empty_lines\<close>, provided that, when the extension
  is \<open>.txt\<close>, the two lower-cased names agree on containing \<open>readme\<close> and on containing
  \<open>license\<close>. The model has no state between calls. This is stated for an extension
  written in lower case or one that the analysis has no rule for; what becomes of another
  spelling of an extension that has a rule is left out.
\<close>

theorem analysis_depends_on_extension_and_content:
  assumes "lower (suffix p) = lower (suffix q)"
    and "suffix p = lower (suffix p) \<or> lower (suffix p) \<notin> set analyzed_suffixes"
    and "suffix q = lower (suffix q) \<or> lower (suffix q) \<notin> set analyzed_suffixes"
    and "lower (suffix p) = ''.txt'' \<longrightarrow>
           contains ''readme'' (lower (name p)) = contains ''readme'' (lower (name q))
           \<and> contains ''license'' (lower (name p)) = contains ''license'' (lower (name q))"
  shows "summary (analyze_file_content loads p (Inr content) (Inr sz))
           = summary (analyze_file_content loads q (Inr content) (Inr sz'))
    \<and> lines (analyze_file_content loads p (Inr content) (Inr sz))
           = lines (analyze_file_content loads q (Inr content) (Inr sz'))
    \<and> non_empty_lines (analyze_file_content loads p (Inr content) (Inr sz))
           = non_empty_lines (analyze_file_content loads q (Inr content) (Inr sz'))"
proof -
  have "summary_by_type loads p c ls = summary_by_type loads q c ls" for c ls
  proof (cases "lower (suffix p) \<in> set analyzed_suffixes")
    case True
    with assms(1,2,3) have "suffix p = lower (suffix p)" and "suffix q = lower (suffix q)"
      by simp_all
    with assms(1,4) have "suffix p = suffix q"
      and "suffix p = ''.txt'' \<longrightarrow>
           contains ''readme'' (lower (name p)) = contains ''readme'' (lower (name q))
           \<and> contains ''license'' (lower (name p)) = contains ''license'' (lower (name q))"
      by simp_all
    then show ?thesis
      by (simp add: summary_by_type_def summary_txt_def Let_def)
  next
    case False
    with assms(1) have "suffix p \<notin> set analyzed_suffixes" and "suffix q \<notin> set analyzed_suffixes"
      using analyzed_suffixes_lower [of "suffix p"] analyzed_suffixes_lower [of "suffix q"]
      by auto
    then show ?thesis
      by (simp add: summary_by_type_unhandled)
  qed
  then show ?thesis
    by (simp add: analyze_file_content_def Let_def)
qed

theorem analysis_depends_on_extension_and_content_witness:
  "summary (analyze_file_content Map.empty \<lparr>name = ''notes.txt'', suffix = ''.txt''\<rparr>
     (Inr ''hello'') (Inr 5))
   = summary (analyze_file_content Map.empty \<lparr>name = ''draft.txt'', suffix = ''.txt''\<rparr>
     (Inr ''hello'') (Inr 5))"
proof -
  have "contains ''readme'' (lower ''notes.txt'') = contains ''readme'' (lower ''draft.txt'')"
    and "contains ''license'' (lower ''notes.txt'') = contains ''license'' (lower ''draft.txt'')"
    and "lower ''.txt'' = ''.txt''"
    by code_simp+
  then show ?thesis
    using analysis_depends_on_extension_and_content
      [of "\<lparr>name = ''notes.txt'', suffix = ''.txt''\<rparr>"
        "\<lparr>name = ''draft.txt'', suffix = ''.txt''\<rparr>" Map.empty "''hello''" 5 5]
    by simp
qed

subsection \<open>Exports of a script\<close>

text \<open>
  The claim's words "the content contains a default export", for the counterexample: an
  \<open>export\<close> keyword followed by \<open>default\<close>, as in the pattern of the source.
\<close>

definition pat_default_export :: regex where \<comment> \<open>\<open>export\s+default\<close>\<close>
  "pat_default_export = seqs [Str ''export'', Rep Space 1 True, Str ''default'']"

definition has_default_export :: "string \<Rightarrow> bool" where
  "has_default_export content = (re_search no_flags pat_default_export content \<noteq> None)"

text \<open>
  C9 says that the export fragment carries \<open>(default)\<close> exactly when the content has a
  default export. The source tests whether \<open>default\<close> occurs anywhere in the content:
  a comment is enough.
\<close>

theorem default_suffix_counterexample:
  "summary (analyze_file_content Map.empty \<lparr>name = ''util.js'', suffix = ''.js''\<rparr>
     (Inr ''export const x = 1 // default'') (Inr 29)) = ''Exports: x (default)''
   \<and> \<not> has_default_export ''export const x = 1 // default''"
  by code_simp

lemma join_nonempty: "x \<in> set xs \<Longrightarrow> x \<noteq> [] \<Longrightarrow> join sep xs \<noteq> []"
  by (induction sep xs rule: join.induct) auto

text \<open>
  C9, amended: for a \<open>.js\<close>, \<open>.ts\<close>, \<open>.jsx\<close> or \<open>.tsx\<close> file in whose content (the
  text as read) the export pattern matches at least once, the summary is the fragments joined by a space, and the
  export fragment among them is \<open>Exports: <first name> (default)\<close> when \<open>default\<close>
  occurs anywhere in the content, and otherwise \<open>Exports:\<close> with the first three
  exported names separated by a comma and a space.
\<close>

theorem js_export_fragment:
  assumes "suffix p \<in> set [''.js'', ''.ts'', ''.jsx'', ''.tsx'']"
    and "content = universal_newlines raw"
    and "js_exports content \<noteq> []"
  shows "js_export_part content =
           [if contains ''default'' content
            then ''Exports: '' @ hd (js_exports content) @ '' (default)''
            else ''Exports: '' @ join '', '' (take 3 (js_exports content))]
    \<and> summary (analyze_file_content loads p (Inr raw) (Inr sz))
        = join '' '' (js_framework_part content @ js_export_part content @ js_pattern_part content)"
proof -
  let ?parts = "js_framework_part content @ js_export_part content @ js_pattern_part content"
  from assms(3) have e: "js_export_part content =
           [if contains ''default'' content
            then ''Exports: '' @ hd (js_exports content) @ '' (default)''
            else ''Exports: '' @ join '', '' (take 3 (js_exports content))]"
    by (simp add: js_export_part_def Let_def)
  then obtain x where "x \<in> set ?parts" and "x \<noteq> []"
    by (cases "contains ''default'' content") auto
  then have ne: "join '' '' ?parts \<noteq> []" and "?parts \<noteq> []"
    by (auto simp: join_nonempty)
  then have s: "summary_js content = join '' '' ?parts"
    by (simp add: summary_js_def summary_of_def)
  from assms(1) consider "suffix p = ''.js''" | "suffix p = ''.ts''" | "suffix p = ''.jsx''"
    | "suffix p = ''.tsx''"
    by auto
  then have "summary_by_type loads p content (split [nl] content) = summary_js content"
    by cases (simp_all add: summary_by_type_def)
  with s ne have "summary (analyze_file_content loads p (Inr raw) (Inr sz)) = join '' '' ?parts"
    by (simp add: analyze_file_content_def Let_def assms(2) [symmetric])
  with e show ?thesis by simp
qed

definition exports_example :: string where
  "exports_example = ''export const a = 1; export function b() {}'' @ [nl]
     @ ''export class C {}; export let d = 2;''"

theorem js_export_fragment_witness:
  "js_exports exports_example = [''a'', ''b'', ''C'', ''d'']
   \<and> summary (analyze_file_content Map.empty \<lparr>name = ''api.ts'', suffix = ''.ts''\<rparr>
        (Inr exports_example) (Inr 80)) = ''Exports: a, b, C''"
proof -
  have x: "js_exports exports_example = [''a'', ''b'', ''C'', ''d'']"
    and c: "\<not> contains ''default'' exports_example"
    and f: "js_framework_part exports_example = []"
    and t: "js_pattern_part exports_example = []"
    and u: "exports_example = universal_newlines exports_example"
    by code_simp+
  from x have "js_exports exports_example \<noteq> []" by simp
  with u js_export_fragment [where p = "\<lparr>name = ''api.ts'', suffix = ''.ts''\<rparr>"
      and content = exports_example and raw = exports_example and loads = Map.empty and sz = 80]
  show ?thesis
    by (simp add: x c f t)
qed

end
